theory Spec2Isabelle
  imports Complex_Main
begin

section \<open>JavaScript values used by the stock computations\<close>

subsection \<open>Strings\<close>

text \<open>
  A JavaScript string is modelled as a list of 8-bit code units, read as the code points
  U+0000 .. U+00FF. On this range \<open>String.prototype.toLowerCase\<close> adds 32 to the letters
  \<open>A .. Z\<close> and to the accented capitals U+00C0 .. U+00DE (U+00D7, the multiplication
  sign, apart) and leaves every other code unit alone; \<open>String.prototype.trim\<close> removes
  the white space and line terminators (tab, line feed, vertical tab, form feed, carriage
  return, space, no-break space) from both ends.
\<close>

definition toLowerChar :: "char \<Rightarrow> char" where
  "toLowerChar c =
     (let n = (of_char c :: nat)
      in if (65 \<le> n \<and> n \<le> 90) \<or> (192 \<le> n \<and> n \<le> 222 \<and> n \<noteq> 215)
         then char_of (n + 32) else c)"

definition isWhiteSpace :: "char \<Rightarrow> bool" where
  "isWhiteSpace c = ((of_char c :: nat) \<in> {9, 10, 11, 12, 13, 32, 160})"

definition toLowerCase :: "string \<Rightarrow> string" where
  "toLowerCase s = map toLowerChar s"

definition trim :: "string \<Rightarrow> string" where
  "trim s = rev (dropWhile isWhiteSpace (rev (dropWhile isWhiteSpace s)))"

subsection \<open>Dates\<close>

text \<open>
  A JavaScript \<open>Date\<close> holds a time value in milliseconds since the epoch, or NaN (an
  "Invalid Date"). The comparisons of date-fns read the two time values and compare them
  as numbers, so each of them is false as soon as one side is invalid:
  \<open>isAfter a b\<close> is \<open>a.getTime() > b.getTime()\<close>, \<open>isBefore a b\<close> is \<open><\<close>, and
  \<open>isEqual a b\<close> is \<open>===\<close> on the time values.
\<close>

datatype Date = DateMs int | InvalidDate

fun isAfter :: "Date \<Rightarrow> Date \<Rightarrow> bool" where
  "isAfter (DateMs a) (DateMs b) = (b < a)"
| "isAfter _ _ = False"

fun isBefore :: "Date \<Rightarrow> Date \<Rightarrow> bool" where
  "isBefore (DateMs a) (DateMs b) = (a < b)"
| "isBefore _ _ = False"

fun isEqual :: "Date \<Rightarrow> Date \<Rightarrow> bool" where
  "isEqual (DateMs a) (DateMs b) = (a = b)"
| "isEqual _ _ = False"

text \<open>\<open>a.getTime() === b.getTime()\<close>: NaN is not equal to itself.\<close>

fun sameTime :: "Date \<Rightarrow> Date \<Rightarrow> bool" where
  "sameTime (DateMs a) (DateMs b) = (a = b)"
| "sameTime _ _ = False"

section \<open>Data model\<close>

text \<open>
  Modelled from the spec: the declaration of \<open>RegisterSale\<close> (in the module \<open>types\<close>
  that the sources import) is missing. The record holds the fields the modelled functions
  read: the two matching keys, the date and the quantity, an integer.
\<close>

record RegisterSale =
  product :: string
  category :: string
  date :: Date
  quantity :: int

text \<open>
  Modelled from the spec: the declaration of \<open>Product\<close> (in the same module) is missing.
  Stock levels are integers; \<open>quantitySold\<close> and \<open>initialStockDate\<close> may be absent (the
  sources guard every read of them), and an absent field is \<open>None\<close>.
\<close>

record Product =
  name :: string
  category :: string
  price :: real
  stock :: int
  initialStock :: int
  initialStockDate :: "string option"
  minStock :: int
  quantitySold :: "int option"

text \<open>\<open>product.quantitySold || 0\<close>: an absent field gives \<open>0\<close>.\<close>

definition orZero :: "int option \<Rightarrow> int" where
  "orZero q = (case q of None \<Rightarrow> 0 | Some n \<Rightarrow> n)"

section \<open>calculateStockFinal, hasEarlySales\<close>

text \<open>
  \<open>parseISO\<close> of date-fns is a parameter of the model: it maps the stored string to a
  date, an invalid one when the string is not an ISO date; \<open>initialDate\<close> below is the
  parsed date (the source's local \<open>initialStockDate\<close>). The test
  \<open>!product.initialStockDate\<close> holds for an absent field and for the empty string.
\<close>

text \<open>The filter of \<open>calculateStockFinal\<close> (\<open>relevantSales\<close>), given the parsed date.\<close>

definition relevantSales :: "Date \<Rightarrow> Product \<Rightarrow> RegisterSale list \<Rightarrow> RegisterSale list" where
  "relevantSales initialDate p sales =
     filter (\<lambda>sale.
        trim (toLowerCase (product sale)) = trim (toLowerCase (name p)) \<and>
        trim (toLowerCase (RegisterSale.category sale)) = trim (toLowerCase (Product.category p)) \<and>
        (isAfter (date sale) initialDate \<or> isEqual (date sale) initialDate))
      sales"

definition stockAfter :: "Date \<Rightarrow> Product \<Rightarrow> RegisterSale list \<Rightarrow> int" where
  "stockAfter initialDate p sales =
     (let totalSoldAfterInitialDate =
            foldl (\<lambda>sum sale. sum + quantity sale) 0 (relevantSales initialDate p sales);
          finalStock = max 0 (initialStock p - totalSoldAfterInitialDate)
      in finalStock)"

definition calculateStockFinal :: "(string \<Rightarrow> Date) \<Rightarrow> Product \<Rightarrow> RegisterSale list \<Rightarrow> int" where
  "calculateStockFinal parseISO p sales =
     (case initialStockDate p of
        None \<Rightarrow> initialStock p
      | Some s \<Rightarrow> if s = [] then initialStock p else stockAfter (parseISO s) p sales)"

text \<open>The test of \<open>hasEarlySales\<close> (\<open>sales.some\<close>), given the parsed date.\<close>

definition someEarlySale :: "Date \<Rightarrow> Product \<Rightarrow> RegisterSale list \<Rightarrow> bool" where
  "someEarlySale initialDate p sales =
     list_ex (\<lambda>sale.
        trim (toLowerCase (product sale)) = trim (toLowerCase (name p)) \<and>
        trim (toLowerCase (RegisterSale.category sale)) = trim (toLowerCase (Product.category p)) \<and>
        isBefore (date sale) initialDate)
      sales"

definition hasEarlySales :: "(string \<Rightarrow> Date) \<Rightarrow> Product \<Rightarrow> RegisterSale list \<Rightarrow> bool" where
  "hasEarlySales parseISO p sales =
     (case initialStockDate p of
        None \<Rightarrow> False
      | Some s \<Rightarrow> if s = [] then False else someEarlySale (parseISO s) p sales)"

section \<open>calculateHistoricalStock\<close>

record HistoricalStock =
  historicalStock :: int
  quantitySoldUpToDate :: int
  isHistoricalView :: bool

text \<open>
  \<open>endOfDay\<close> of date-fns is a parameter of the model, as \<open>parseISO\<close> is: it sets the
  wall clock of the browser's time zone to 23:59:59.999 on the calendar day of its
  argument, whatever the length of that day is. \<open>registerSales\<close> is the ledger the
  component holds. The filter of \<open>calculateHistoricalStock\<close> (\<open>salesUpToDate\<close>):
\<close>

definition salesUpToDate :: "(Date \<Rightarrow> Date) \<Rightarrow> RegisterSale list \<Rightarrow> Product \<Rightarrow> Date \<Rightarrow> RegisterSale list" where
  "salesUpToDate endOfDay registerSales p targetDate =
     filter (\<lambda>sale.
        let saleDate = date sale;
            endOfTargetDate = endOfDay targetDate
        in (isBefore saleDate endOfTargetDate \<or> sameTime saleDate endOfTargetDate) \<and>
           trim (toLowerCase (product sale)) = trim (toLowerCase (name p)) \<and>
           trim (toLowerCase (RegisterSale.category sale)) = trim (toLowerCase (Product.category p)))
       registerSales"

text \<open>
  \<open>targetDate\<close> is \<open>None\<close> when the caller passes no date (\<open>!targetDate\<close>); a
  \<open>Date\<close> object, valid or not, is truthy. In
  \<open>product.initialStock || product.stock + (product.quantitySold || 0)\<close> the sum is
  taken when \<open>initialStock\<close> is falsy, that is \<open>0\<close>.
\<close>

definition calculateHistoricalStock ::
  "(Date \<Rightarrow> Date) \<Rightarrow> RegisterSale list \<Rightarrow> Product \<Rightarrow> Date option \<Rightarrow> HistoricalStock" where
  "calculateHistoricalStock endOfDay registerSales p targetDate =
     (case targetDate of
        None \<Rightarrow>
          \<lparr>historicalStock = stock p,
           quantitySoldUpToDate = orZero (quantitySold p),
           isHistoricalView = False\<rparr>
      | Some target \<Rightarrow>
          let quantitySoldUpToDate =
                foldl (\<lambda>sum sale. sum + quantity sale) 0 (salesUpToDate endOfDay registerSales p target);
              initialStock =
                (if initialStock p \<noteq> 0 then initialStock p else stock p + orZero (quantitySold p));
              historicalStock = max 0 (initialStock - quantitySoldUpToDate)
          in \<lparr>historicalStock = historicalStock,
              quantitySoldUpToDate = quantitySoldUpToDate,
              isHistoricalView = True\<rparr>)"

section \<open>useStockStatistics\<close>

record CategoryCount =
  category :: string
  count :: int
  stock :: int
  sold :: int
  revenue :: real

record StockLevels =
  outOfStock :: int
  lowStock :: int
  healthy :: int

record Statistics =
  totalProducts :: int
  totalStock :: int
  totalSold :: int
  outOfStock :: int
  lowStock :: int
  totalRevenue :: real
  categoryCounts :: "CategoryCount list"
  stockLevels :: StockLevels

text \<open>\<open>[...new Set(xs)]\<close>: the distinct elements in the order of their first occurrence.\<close>

fun newSet :: "'a list \<Rightarrow> 'a list" where
  "newSet [] = []"
| "newSet (x # xs) = x # newSet (filter (\<lambda>y. y \<noteq> x) xs)"

definition sumStock :: "Product list \<Rightarrow> int" where
  "sumStock ps = foldl (\<lambda>sum p. sum + Product.stock p) 0 ps"

definition sumSold :: "Product list \<Rightarrow> int" where
  "sumSold ps = foldl (\<lambda>sum p. sum + orZero (quantitySold p)) 0 ps"

definition sumRevenue :: "Product list \<Rightarrow> real" where
  "sumRevenue ps =
     foldl (\<lambda>sum p. let sold = orZero (quantitySold p) in sum + of_int sold * price p) 0 ps"

text \<open>
  \<open>Array.prototype.sort\<close> is stable; with the comparator \<open>b.count - a.count\<close> it orders
  by descending count, as the stable insertion sort on the negated count does.
\<close>

definition useStockStatistics :: "Product list \<Rightarrow> Product list \<Rightarrow> Statistics" where
  "useStockStatistics products filteredProducts =
     (let totalProducts = int (length filteredProducts);
          totalStock = sumStock filteredProducts;
          totalSold = sumSold filteredProducts;
          outOfStock = int (length (filter (\<lambda>p. Product.stock p = 0) filteredProducts));
          lowStock = int (length (filter (\<lambda>p. Product.stock p > 0 \<and> Product.stock p \<le> minStock p)
                                   filteredProducts));
          totalRevenue = sumRevenue filteredProducts;
          categories = newSet (map Product.category filteredProducts);
          categoryCounts =
            sort_key (\<lambda>c. - CategoryCount.count c)
              (map (\<lambda>category.
                  let productsInCategory =
                        filter (\<lambda>p. Product.category p = category) filteredProducts
                  in \<lparr>category = category,
                      count = int (length productsInCategory),
                      stock = sumStock productsInCategory,
                      sold = sumSold productsInCategory,
                      revenue = sumRevenue productsInCategory\<rparr>)
                categories);
          stockLevels =
            \<lparr>StockLevels.outOfStock = outOfStock,
             StockLevels.lowStock = lowStock,
             healthy = totalProducts - outOfStock - lowStock\<rparr>
      in \<lparr>totalProducts = totalProducts,
          totalStock = totalStock,
          totalSold = totalSold,
          outOfStock = outOfStock,
          lowStock = lowStock,
          totalRevenue = totalRevenue,
          categoryCounts = categoryCounts,
          stockLevels = stockLevels\<rparr>)"

section \<open>The matcher and the date orders of the specification\<close>

text \<open>
  The specification's matcher: both fields are lowercased and trimmed on both sides and
  compared for equality. The sources have no such function; each filter writes the
  comparison out, and the theorems below relate the filters to it.
\<close>

definition normalize :: "string \<Rightarrow> string" where
  "normalize s = trim (toLowerCase s)"

definition matches :: "RegisterSale \<Rightarrow> Product \<Rightarrow> bool" where
  "matches sale p =
     (normalize (product sale) = normalize (name p) \<and>
      normalize (RegisterSale.category sale) = normalize (Product.category p))"

text \<open>The order of two dates: both are valid and their time values are in that order.\<close>

definition onOrBefore :: "Date \<Rightarrow> Date \<Rightarrow> bool" where
  "onOrBefore a b =
     (case a of
        InvalidDate \<Rightarrow> False
      | DateMs x \<Rightarrow> (case b of InvalidDate \<Rightarrow> False | DateMs y \<Rightarrow> x \<le> y))"

definition strictlyBefore :: "Date \<Rightarrow> Date \<Rightarrow> bool" where
  "strictlyBefore a b =
     (case a of
        InvalidDate \<Rightarrow> False
      | DateMs x \<Rightarrow> (case b of InvalidDate \<Rightarrow> False | DateMs y \<Rightarrow> x < y))"

text \<open>The quantity of the sales of a ledger that satisfy a condition.\<close>

definition quantityOf :: "(RegisterSale \<Rightarrow> bool) \<Rightarrow> RegisterSale list \<Rightarrow> int" where
  "quantityOf P sales = sum_list (map quantity (filter P sales))"

section \<open>Example data\<close>

text \<open>
  The scenario of the specification: a product with 100 units on 2024-01-01, a sale of 10
  on that day (written with other case and spacing) and a sale of 5 on the day before.
  Times are in UTC.
\<close>

text \<open>
  An instance of \<open>endOfDay\<close> for the examples: a time zone that keeps a constant offset of
  \<open>off\<close> milliseconds from UTC all year (Indian/Antananarivo, UTC+3, is one; UTC is
  \<open>off = 0\<close>). There every calendar day has 86400000 milliseconds, \<open>dayOf off t\<close> is
  the calendar day of the time \<open>t\<close>, and the end of the day is its last millisecond.
\<close>

definition msPerDay :: int where
  "msPerDay = 86400000"

definition dayOf :: "int \<Rightarrow> int \<Rightarrow> int" where
  "dayOf off t = (t + off) div msPerDay"

fun endOfDayAt :: "int \<Rightarrow> Date \<Rightarrow> Date" where
  "endOfDayAt off (DateMs t) = DateMs ((dayOf off t + 1) * msPerDay - 1 - off)"
| "endOfDayAt off InvalidDate = InvalidDate"

definition exampleParseISO :: "string \<Rightarrow> Date" where
  "exampleParseISO s = (if s = ''2024-01-01'' then DateMs 1704067200000 else InvalidDate)"

definition widget :: Product where
  "widget = \<lparr>name = ''Widget'', Product.category = ''Tools'', price = 25, Product.stock = 90,
             initialStock = 100, initialStockDate = Some ''2024-01-01'', minStock = 5,
             quantitySold = Some 10\<rparr>"

definition saleOnDate :: RegisterSale where
  "saleOnDate = \<lparr>product = '' widget '', RegisterSale.category = ''TOOLS'',
                 date = DateMs 1704067200000, quantity = 10\<rparr>"

definition saleEarly :: RegisterSale where
  "saleEarly = \<lparr>product = ''Widget'', RegisterSale.category = ''Tools'',
                date = DateMs 1703980800000, quantity = 5\<rparr>"

text \<open>
  Two more sales of the product: one in the evening of 2024-01-01 (18:00) and one at the
  first millisecond of 2024-01-02.
\<close>

definition saleEvening :: RegisterSale where
  "saleEvening = \<lparr>product = ''WIDGET'', RegisterSale.category = ''tools '',
                  date = DateMs 1704132000000, quantity = 3\<rparr>"

definition saleNextDay :: RegisterSale where
  "saleNextDay = \<lparr>product = ''Widget'', RegisterSale.category = ''Tools'',
                  date = DateMs 1704153600000, quantity = 7\<rparr>"

definition exampleLedger :: "RegisterSale list" where
  "exampleLedger = [saleOnDate, saleEarly, saleEvening, saleNextDay]"

text \<open>The same product without an initial stock date.\<close>

definition widgetNoDate :: Product where
  "widgetNoDate = widget\<lparr>initialStockDate := None\<rparr>"

text \<open>A product with a dated initial stock of zero, two units sold and none left.\<close>

definition widgetZeroInitial :: Product where
  "widgetZeroInitial = widget\<lparr>initialStock := 0, Product.stock := 0, quantitySold := Some 2\<rparr>"

text \<open>The dated product with an initial stock of 10, less than the ledger sells.\<close>

definition widgetSmall :: Product where
  "widgetSmall = widget\<lparr>initialStock := 10, Product.stock := 0, quantitySold := Some 20\<rparr>"

text \<open>A product without a date that sold more than its initial stock.\<close>

definition widgetOversold :: Product where
  "widgetOversold = widget\<lparr>initialStockDate := None, initialStock := 10, Product.stock := 0,
                           quantitySold := Some 15\<rparr>"

text \<open>
  Two products with a negative stored field, as the inline inputs of the stock table let
  one type them: an undated one with an initial stock of -5, and one with a stock of -3.
\<close>

definition widgetNegativeInitial :: Product where
  "widgetNegativeInitial = widget\<lparr>initialStockDate := None, initialStock := - 5,
                                  Product.stock := 0, quantitySold := Some 0\<rparr>"

definition widgetNegativeStock :: Product where
  "widgetNegativeStock = widget\<lparr>Product.stock := - 3\<rparr>"

section \<open>Auxiliary facts\<close>

lemma foldl_quantity:
  "foldl (\<lambda>sum sale. sum + quantity sale) a xs = a + sum_list (map quantity xs)"
  by (induction xs arbitrary: a) simp_all

lemma on_or_after_iff: "(isAfter a d \<or> isEqual a d) = onOrBefore d a"
  by (cases a; cases d) (simp_all add: onOrBefore_def, auto)

lemma up_to_iff: "(isBefore a e \<or> sameTime a e) = onOrBefore a e"
  by (cases a; cases e) (simp_all add: onOrBefore_def, auto)

lemma isBefore_iff: "isBefore a d = strictlyBefore a d"
  by (cases a; cases d) (simp_all add: strictlyBefore_def)

lemma onOrBefore_iff: "onOrBefore a b = (\<exists>x y. a = DateMs x \<and> b = DateMs y \<and> x \<le> y)"
  by (cases a; cases b) (simp_all add: onOrBefore_def)

lemma strictlyBefore_iff: "strictlyBefore a b = (\<exists>x y. a = DateMs x \<and> b = DateMs y \<and> x < y)"
  by (cases a; cases b) (simp_all add: strictlyBefore_def)

lemma relevantSales_filter:
  "relevantSales d p sales = filter (\<lambda>s. matches s p \<and> onOrBefore d (date s)) sales"
  unfolding relevantSales_def matches_def normalize_def on_or_after_iff
  by (rule filter_cong) auto

lemma salesUpToDate_filter:
  "salesUpToDate endOfDay sales p t =
     filter (\<lambda>s. matches s p \<and> onOrBefore (date s) (endOfDay t)) sales"
  unfolding salesUpToDate_def matches_def normalize_def Let_def up_to_iff
  by (rule filter_cong) auto

lemma someEarlySale_iff:
  "someEarlySale d p sales = (\<exists>s \<in> set sales. matches s p \<and> strictlyBefore (date s) d)"
  unfolding someEarlySale_def matches_def normalize_def isBefore_iff list_ex_iff
  by auto

lemma stockAfter_eq:
  "stockAfter d p sales =
     max 0 (initialStock p - quantityOf (\<lambda>s. matches s p \<and> onOrBefore d (date s)) sales)"
  by (simp add: stockAfter_def foldl_quantity relevantSales_filter quantityOf_def)

lemma less_next_day: "(x::int) < (x div msPerDay + 1) * msPerDay"
proof -
  define q r where "q = x div msPerDay" and "r = x mod msPerDay"
  have "r < msPerDay"
    by (simp add: r_def msPerDay_def)
  moreover have "x = q * msPerDay + r"
    by (simp add: q_def r_def)
  ultimately have "x < (q + 1) * msPerDay"
    by (simp add: algebra_simps)
  then show ?thesis
    by (simp add: q_def)
qed

lemma same_day_before_end:
  assumes "dayOf off t = dayOf off T"
  shows "t \<le> (dayOf off T + 1) * msPerDay - 1 - off"
proof -
  have "t + off < (dayOf off t + 1) * msPerDay"
    unfolding dayOf_def by (rule less_next_day)
  with assms show ?thesis
    by simp
qed

lemma normalize_examples:
  "normalize '' widget '' = normalize ''Widget''"
  "normalize ''TOOLS'' = normalize ''Tools''"
  by code_simp+

section \<open>Claims\<close>

text \<open>
  C1. For a product without an initial stock date the current stock should be the initial
  stock minus all matched sales, clamped at zero. The source returns the initial stock
  unchanged (while its comment announces "use all sales"): for the example product
  without a date and the two example sales it returns 100, where the claim requires 85.
\<close>

theorem calculateStockFinal_undated_example:
  "calculateStockFinal exampleParseISO widgetNoDate [saleOnDate, saleEarly] = 100 \<and>
   max 0 (initialStock widgetNoDate -
          quantityOf (\<lambda>s. matches s widgetNoDate) [saleOnDate, saleEarly]) = 85"
  by code_simp

text \<open>
  C2, as stated: the baseline of the historical stock is \<open>initialStock\<close> exactly when the
  initial stock date is set. It fails both ways: with a date and an initial stock of 0
  the baseline is \<open>stock + quantitySold\<close> (first product, 2 instead of 0), and without
  a date a non-zero initial stock is the baseline (second product, 10 instead of 15).
\<close>

theorem historical_baseline_counterexample:
  "initialStockDate widgetZeroInitial = Some ''2024-01-01'' \<and>
   historicalStock (calculateHistoricalStock (endOfDayAt 0) [] widgetZeroInitial (Some (DateMs 1704067200000)))
     \<noteq> max 0 (initialStock widgetZeroInitial -
              quantitySoldUpToDate
                (calculateHistoricalStock (endOfDayAt 0) [] widgetZeroInitial (Some (DateMs 1704067200000)))) \<and>
   initialStockDate widgetOversold = None \<and>
   historicalStock (calculateHistoricalStock (endOfDayAt 0) [] widgetOversold (Some (DateMs 1704067200000)))
     \<noteq> max 0 (Product.stock widgetOversold + orZero (quantitySold widgetOversold) -
              quantitySoldUpToDate
                (calculateHistoricalStock (endOfDayAt 0) [] widgetOversold (Some (DateMs 1704067200000))))"
  by code_simp

text \<open>
  C2, amended: for every product and target date the baseline is \<open>initialStock\<close> when
  \<open>initialStock\<close> is not zero and \<open>stock + quantitySold\<close> (an absent \<open>quantitySold\<close>
  counting as 0) when it is zero, whatever the initial stock date is; the historical stock
  is the baseline minus the quantity sold up to the target date, clamped at zero.
\<close>

theorem historical_baseline:
  "historicalStock (calculateHistoricalStock endOfDay sales p (Some target)) =
     max 0 ((if initialStock p \<noteq> 0 then initialStock p
             else Product.stock p + orZero (quantitySold p)) -
            quantitySoldUpToDate (calculateHistoricalStock endOfDay sales p (Some target))) \<and>
   calculateHistoricalStock endOfDay sales (p\<lparr>initialStockDate := d\<rparr>) (Some target) =
     calculateHistoricalStock endOfDay sales p (Some target)"
  by (simp add: calculateHistoricalStock_def salesUpToDate_def Let_def)

theorem historical_baseline_witness:
  "historicalStock
     (calculateHistoricalStock (endOfDayAt 0) [saleOnDate, saleEarly] widget (Some (DateMs 1703980800000))) = 95"
proof -
  have "max 0 ((if initialStock widget \<noteq> 0 then initialStock widget
                else Product.stock widget + orZero (quantitySold widget)) -
               quantitySoldUpToDate
                 (calculateHistoricalStock (endOfDayAt 0) [saleOnDate, saleEarly] widget
                    (Some (DateMs 1703980800000)))) = 95"
    by code_simp
  with historical_baseline [of "endOfDayAt 0" "[saleOnDate, saleEarly]" widget "DateMs 1703980800000"]
  show ?thesis
    by simp
qed

text \<open>
  C3. With a target date, the quantity sold is the sum over exactly the matched sales
  dated up to the end of the target's calendar day, the date that \<open>endOfDay\<close> returns
  for the target: a matched sale of the ledger is counted exactly when its date is valid
  and not after that end, and a sale dated after it (one millisecond later or more) is
  not counted. So whenever the end of the day is not before any instant of the target's
  calendar day, as the last millisecond of that day is, a matched sale dated anywhere on
  that day is counted. This holds for every \<open>endOfDay\<close> and every division \<open>day\<close> of
  time into calendar days, of any length.
\<close>

theorem historical_quantity_up_to_end_of_day:
  "quantitySoldUpToDate (calculateHistoricalStock endOfDay sales p (Some target)) =
     quantityOf (\<lambda>s. matches s p \<and> onOrBefore (date s) (endOfDay target)) sales \<and>
   (\<forall>s \<in> set sales. matches s p \<longrightarrow>
      (s \<in> set (salesUpToDate endOfDay sales p target)) =
        (\<exists>t e. date s = DateMs t \<and> endOfDay target = DateMs e \<and> t \<le> e)) \<and>
   (\<forall>(s::RegisterSale) t e. date s = DateMs t \<and> endOfDay target = DateMs e \<and> e < t \<longrightarrow>
      s \<notin> set (salesUpToDate endOfDay sales p target)) \<and>
   (\<forall>(day :: int \<Rightarrow> int) T e.
      target = DateMs T \<and> endOfDay target = DateMs e \<and> (\<forall>t. day t = day T \<longrightarrow> t \<le> e) \<longrightarrow>
      (\<forall>s t. s \<in> set sales \<and> matches s p \<and> date s = DateMs t \<and> day t = day T \<longrightarrow>
         s \<in> set (salesUpToDate endOfDay sales p target)))"
proof (intro conjI ballI allI impI)
  show "quantitySoldUpToDate (calculateHistoricalStock endOfDay sales p (Some target)) =
     quantityOf (\<lambda>s. matches s p \<and> onOrBefore (date s) (endOfDay target)) sales"
    by (simp add: calculateHistoricalStock_def Let_def foldl_quantity salesUpToDate_filter
        quantityOf_def)
next
  fix s
  assume "s \<in> set sales" and "matches s p"
  then show "(s \<in> set (salesUpToDate endOfDay sales p target)) =
        (\<exists>t e. date s = DateMs t \<and> endOfDay target = DateMs e \<and> t \<le> e)"
    by (simp add: salesUpToDate_filter onOrBefore_iff)
next
  fix s :: RegisterSale and t e
  assume "date s = DateMs t \<and> endOfDay target = DateMs e \<and> e < t"
  then show "s \<notin> set (salesUpToDate endOfDay sales p target)"
    by (simp add: salesUpToDate_filter onOrBefore_def)
next
  fix day :: "int \<Rightarrow> int" and T e s t
  assume c: "target = DateMs T \<and> endOfDay target = DateMs e \<and> (\<forall>t. day t = day T \<longrightarrow> t \<le> e)"
    and a: "s \<in> set sales \<and> matches s p \<and> date s = DateMs t \<and> day t = day T"
  then have "date s = DateMs t \<and> endOfDay target = DateMs e \<and> t \<le> e"
    by blast
  then have "onOrBefore (date s) (endOfDay target)"
    unfolding onOrBefore_iff by blast
  with a show "s \<in> set (salesUpToDate endOfDay sales p target)"
    by (simp add: salesUpToDate_filter)
qed

theorem historical_quantity_up_to_end_of_day_witness:
  "quantitySoldUpToDate
     (calculateHistoricalStock (endOfDayAt 0) exampleLedger widget (Some (DateMs 1704067200000)))
     = 18 \<and>
   saleEvening \<in> set (salesUpToDate (endOfDayAt 0) exampleLedger widget (DateMs 1704067200000)) \<and>
   saleNextDay \<notin> set (salesUpToDate (endOfDayAt 0) exampleLedger widget (DateMs 1704067200000))"
proof -
  note inst = historical_quantity_up_to_end_of_day
    [of "endOfDayAt 0" exampleLedger widget "DateMs 1704067200000"]
  have q: "quantityOf (\<lambda>s. matches s widget \<and>
              onOrBefore (date s) (endOfDayAt 0 (DateMs 1704067200000))) exampleLedger = 18"
    by code_simp
  have e: "endOfDayAt 0 (DateMs 1704067200000) = DateMs 1704153599999"
    by code_simp
  have last: "(dayOf 0 1704067200000 + 1) * msPerDay - 1 - 0 = 1704153599999"
    by code_simp
  have day: "\<forall>t. dayOf 0 t = dayOf 0 1704067200000 \<longrightarrow> t \<le> 1704153599999"
  proof (intro allI impI)
    fix t
    assume "dayOf 0 t = dayOf 0 1704067200000"
    then have "t \<le> (dayOf 0 1704067200000 + 1) * msPerDay - 1 - 0"
      by (rule same_day_before_end)
    then show "t \<le> 1704153599999"
      unfolding last .
  qed
  have h1: "saleEvening \<in> set exampleLedger \<and> matches saleEvening widget \<and>
      date saleEvening = DateMs 1704132000000 \<and>
      dayOf 0 1704132000000 = dayOf 0 1704067200000"
    by code_simp
  have h2: "date saleNextDay = DateMs 1704153600000 \<and> (1704153599999::int) < 1704153600000"
    by code_simp
  from inst q have "quantitySoldUpToDate
     (calculateHistoricalStock (endOfDayAt 0) exampleLedger widget (Some (DateMs 1704067200000)))
     = 18"
    by simp
  moreover from inst e day h1
  have "saleEvening \<in> set (salesUpToDate (endOfDayAt 0) exampleLedger widget (DateMs 1704067200000))"
    by blast
  moreover from inst e h2
  have "saleNextDay \<notin> set (salesUpToDate (endOfDayAt 0) exampleLedger widget (DateMs 1704067200000))"
    by blast
  ultimately show ?thesis
    by simp
qed

text \<open>
  C4. For a product with an initial stock date, \<open>calculateStockFinal\<close> returns the initial
  stock minus the quantities of the matched sales dated on or after that date, clamped at
  zero; a matched sale of the ledger dated exactly on the initial stock date is among the
  sales subtracted.
\<close>

theorem calculateStockFinal_dated:
  assumes "initialStockDate p = Some d" and "d \<noteq> []"
  shows "calculateStockFinal parseISO p sales =
           max 0 (initialStock p -
                  quantityOf (\<lambda>s. matches s p \<and> onOrBefore (parseISO d) (date s)) sales) \<and>
         (\<forall>s t. s \<in> set sales \<and> matches s p \<and> parseISO d = DateMs t \<and> date s = DateMs t \<longrightarrow>
            s \<in> set (relevantSales (parseISO d) p sales))"
  using assms
  by (simp add: calculateStockFinal_def stockAfter_eq relevantSales_filter onOrBefore_def)

theorem calculateStockFinal_dated_witness:
  "calculateStockFinal exampleParseISO widget [saleOnDate, saleEarly] = 90 \<and>
   saleOnDate \<in> set (relevantSales (exampleParseISO ''2024-01-01'') widget [saleOnDate, saleEarly])"
proof -
  have h1: "initialStockDate widget = Some ''2024-01-01''"
    by code_simp
  have h2: "''2024-01-01'' \<noteq> []"
    by simp
  note inst = calculateStockFinal_dated [OF h1 h2, of exampleParseISO "[saleOnDate, saleEarly]"]
  have q: "max 0 (initialStock widget -
      quantityOf (\<lambda>s. matches s widget \<and> onOrBefore (exampleParseISO ''2024-01-01'') (date s))
        [saleOnDate, saleEarly]) = 90"
    by code_simp
  have h3: "saleOnDate \<in> set [saleOnDate, saleEarly] \<and> matches saleOnDate widget \<and>
      exampleParseISO ''2024-01-01'' = DateMs 1704067200000 \<and>
      date saleOnDate = DateMs 1704067200000"
    by code_simp
  from inst q have "calculateStockFinal exampleParseISO widget [saleOnDate, saleEarly] = 90"
    by simp
  moreover from inst h3
  have "saleOnDate \<in> set (relevantSales (exampleParseISO ''2024-01-01'') widget [saleOnDate, saleEarly])"
    by blast
  ultimately show ?thesis
    by simp
qed

text \<open>
  C5. For a product without an initial stock date (the field absent or empty),
  \<open>calculateStockFinal\<close> returns the initial stock, whatever the ledger holds; the
  quantity sold reported without a target date is the stored \<open>quantitySold\<close>.
\<close>

theorem calculateStockFinal_undated:
  assumes "initialStockDate p = None \<or> initialStockDate p = Some []"
  shows "calculateStockFinal parseISO p sales = initialStock p \<and>
         quantitySoldUpToDate (calculateHistoricalStock endOfDay sales p None) = orZero (quantitySold p)"
  using assms
  by (auto simp: calculateStockFinal_def calculateHistoricalStock_def)

theorem calculateStockFinal_undated_witness:
  "calculateStockFinal exampleParseISO widgetOversold exampleLedger = 10 \<and>
   quantitySoldUpToDate (calculateHistoricalStock (endOfDayAt 0) exampleLedger widgetOversold None) = 15"
proof -
  have h: "initialStockDate widgetOversold = None \<or> initialStockDate widgetOversold = Some []"
    by code_simp
  have v: "initialStock widgetOversold = 10 \<and> orZero (quantitySold widgetOversold) = 15"
    by code_simp
  from calculateStockFinal_undated [OF h, of exampleParseISO exampleLedger "endOfDayAt 0"] v
  show ?thesis
    by simp
qed

text \<open>
  C6. \<open>hasEarlySales\<close> holds exactly when the initial stock date is set and some matched
  sale of the ledger is dated strictly before it. A sale dated exactly on the initial
  stock date does not count: adding it to a ledger leaves the answer unchanged.
\<close>

theorem hasEarlySales_iff:
  "hasEarlySales parseISO p sales =
     (\<exists>d. initialStockDate p = Some d \<and> d \<noteq> [] \<and>
          (\<exists>s \<in> set sales. matches s p \<and>
             (\<exists>x y. date s = DateMs x \<and> parseISO d = DateMs y \<and> x < y))) \<and>
   (\<forall>s d. initialStockDate p = Some d \<and> date s = parseISO d \<longrightarrow>
      hasEarlySales parseISO p (s # sales) = hasEarlySales parseISO p sales)"
proof (intro conjI allI impI)
  show "hasEarlySales parseISO p sales =
     (\<exists>d. initialStockDate p = Some d \<and> d \<noteq> [] \<and>
          (\<exists>s \<in> set sales. matches s p \<and>
             (\<exists>x y. date s = DateMs x \<and> parseISO d = DateMs y \<and> x < y)))"
    by (cases "initialStockDate p")
       (simp_all add: hasEarlySales_def someEarlySale_iff strictlyBefore_iff)
next
  fix s :: RegisterSale and d
  assume a: "initialStockDate p = Some d \<and> date s = parseISO d"
  then have "\<not> strictlyBefore (date s) (parseISO d)"
    by (simp add: strictlyBefore_iff)
  with a show "hasEarlySales parseISO p (s # sales) = hasEarlySales parseISO p sales"
    by (simp add: hasEarlySales_def someEarlySale_iff)
qed

theorem hasEarlySales_iff_witness:
  "hasEarlySales exampleParseISO widget [saleOnDate, saleEarly] \<and>
   \<not> hasEarlySales exampleParseISO widget [saleOnDate] \<and>
   \<not> hasEarlySales exampleParseISO widgetNoDate [saleOnDate, saleEarly]"
proof -
  have h: "initialStockDate widget = Some ''2024-01-01'' \<and> ''2024-01-01'' \<noteq> [] \<and>
      saleEarly \<in> set [saleOnDate, saleEarly] \<and> matches saleEarly widget \<and>
      date saleEarly = DateMs 1703980800000 \<and>
      exampleParseISO ''2024-01-01'' = DateMs 1704067200000 \<and>
      (1703980800000::int) < 1704067200000"
    by code_simp
  have "hasEarlySales exampleParseISO widget [saleOnDate, saleEarly]"
    using hasEarlySales_iff [of exampleParseISO widget "[saleOnDate, saleEarly]"] h
    by blast
  moreover have k: "initialStockDate widget = Some ''2024-01-01'' \<and>
      date saleOnDate = exampleParseISO ''2024-01-01''"
    by code_simp
  have e: "\<not> hasEarlySales exampleParseISO widget []"
    by code_simp
  have "\<not> hasEarlySales exampleParseISO widget [saleOnDate]"
    using hasEarlySales_iff [of exampleParseISO widget "[]"] k e
    by blast
  moreover have n: "initialStockDate widgetNoDate = None"
    by code_simp
  have "\<not> hasEarlySales exampleParseISO widgetNoDate [saleOnDate, saleEarly]"
    using hasEarlySales_iff [of exampleParseISO widgetNoDate "[saleOnDate, saleEarly]"] n
    by simp
  ultimately show ?thesis
    by simp
qed


text \<open>
  C7. The comparison written out in each filter of the stock computations is the matcher:
  a sale passes it exactly when the lowercased and trimmed product name equals the
  lowercased and trimmed name of the product and likewise for the two categories. A sale
  of product " widget " in category "TOOLS" matches the product "Widget" in category
  "Tools".
\<close>

theorem matcher_normalized_equality:
  "relevantSales d p sales =
     filter (\<lambda>s. (trim (toLowerCase (product s)) = trim (toLowerCase (name p)) \<and>
                  trim (toLowerCase (RegisterSale.category s)) =
                    trim (toLowerCase (Product.category p))) \<and>
                 (isAfter (date s) d \<or> isEqual (date s) d)) sales \<and>
   someEarlySale d p sales = (\<exists>s \<in> set sales. matches s p \<and> isBefore (date s) d) \<and>
   salesUpToDate endOfDay sales p t =
     filter (\<lambda>s. matches s p \<and>
                 (isBefore (date s) (endOfDay t) \<or> sameTime (date s) (endOfDay t))) sales \<and>
   matches s p =
     (trim (toLowerCase (product s)) = trim (toLowerCase (name p)) \<and>
      trim (toLowerCase (RegisterSale.category s)) = trim (toLowerCase (Product.category p))) \<and>
   matches \<lparr>product = '' widget '', RegisterSale.category = ''TOOLS'', date = sd, quantity = q\<rparr>
           \<lparr>name = ''Widget'', Product.category = ''Tools'', price = pr, Product.stock = st,
            initialStock = ini, initialStockDate = isd, minStock = mn, quantitySold = qs\<rparr>"
proof (intro conjI)
  show "relevantSales d p sales =
     filter (\<lambda>s. (trim (toLowerCase (product s)) = trim (toLowerCase (name p)) \<and>
                  trim (toLowerCase (RegisterSale.category s)) =
                    trim (toLowerCase (Product.category p))) \<and>
                 (isAfter (date s) d \<or> isEqual (date s) d)) sales"
    unfolding relevantSales_def by (rule filter_cong) auto
  show "someEarlySale d p sales = (\<exists>s \<in> set sales. matches s p \<and> isBefore (date s) d)"
    by (simp add: someEarlySale_iff isBefore_iff)
  show "salesUpToDate endOfDay sales p t =
     filter (\<lambda>s. matches s p \<and>
                 (isBefore (date s) (endOfDay t) \<or> sameTime (date s) (endOfDay t))) sales"
    by (simp add: salesUpToDate_filter up_to_iff)
  show "matches s p =
     (trim (toLowerCase (product s)) = trim (toLowerCase (name p)) \<and>
      trim (toLowerCase (RegisterSale.category s)) = trim (toLowerCase (Product.category p)))"
    by (simp add: matches_def normalize_def)
  show "matches \<lparr>product = '' widget '', RegisterSale.category = ''TOOLS'', date = sd, quantity = q\<rparr>
           \<lparr>name = ''Widget'', Product.category = ''Tools'', price = pr, Product.stock = st,
            initialStock = ini, initialStockDate = isd, minStock = mn, quantitySold = qs\<rparr>"
    by (simp add: matches_def normalize_examples)
qed

theorem matcher_normalized_equality_witness:
  "relevantSales (DateMs 1704067200000) widget exampleLedger = [saleOnDate, saleEvening, saleNextDay] \<and>
   salesUpToDate (endOfDayAt 0) exampleLedger widget (DateMs 1704067200000) = [saleOnDate, saleEarly, saleEvening]"
proof -
  note inst = matcher_normalized_equality
    [of "DateMs 1704067200000" widget exampleLedger "endOfDayAt 0" "DateMs 1704067200000"]
  have a: "filter (\<lambda>s. (trim (toLowerCase (product s)) = trim (toLowerCase (name widget)) \<and>
                  trim (toLowerCase (RegisterSale.category s)) =
                    trim (toLowerCase (Product.category widget))) \<and>
                 (isAfter (date s) (DateMs 1704067200000) \<or> isEqual (date s) (DateMs 1704067200000)))
             exampleLedger = [saleOnDate, saleEvening, saleNextDay]"
    by code_simp
  have b: "filter (\<lambda>s. matches s widget \<and>
                 (isBefore (date s) (endOfDayAt 0 (DateMs 1704067200000)) \<or>
                  sameTime (date s) (endOfDayAt 0 (DateMs 1704067200000)))) exampleLedger =
             [saleOnDate, saleEarly, saleEvening]"
    by code_simp
  from inst a b show ?thesis
    by simp
qed

text \<open>
  C8, as stated: for every product the stock returned is never negative. It fails where a
  stored field is returned unchanged: \<open>calculateStockFinal\<close> gives -5 for the undated
  product with an initial stock of -5, and \<open>calculateHistoricalStock\<close> without a target
  date gives -3 for the product with a stock of -3.
\<close>

theorem stock_never_negative_counterexample:
  "calculateStockFinal exampleParseISO widgetNegativeInitial exampleLedger = - 5 \<and>
   \<not> 0 \<le> calculateStockFinal exampleParseISO widgetNegativeInitial exampleLedger \<and>
   historicalStock (calculateHistoricalStock (endOfDayAt 0) exampleLedger widgetNegativeStock None)
     = - 3 \<and>
   \<not> 0 \<le> historicalStock
            (calculateHistoricalStock (endOfDayAt 0) exampleLedger widgetNegativeStock None)"
  by code_simp

text \<open>
  C8, amended: the model has no error branch (no statement of the two functions can throw
  on values of the declared types, and \<open>filter\<close>, \<open>reduce\<close> and \<open>some\<close> end on every
  list). Where sales are subtracted, that is in \<open>calculateStockFinal\<close> for a product with
  an initial stock date and in \<open>calculateHistoricalStock\<close> with a target date, the stock
  returned is never negative, for every product and ledger, and it is zero as soon as the
  matched quantity reaches the baseline. Without a target date
  \<open>calculateHistoricalStock\<close> returns the stored stock, so its result is not negative
  exactly when the stored stock is not.
\<close>

theorem stock_clamped_at_zero:
  "(\<forall>d. initialStockDate p = Some d \<and> d \<noteq> [] \<longrightarrow>
        0 \<le> calculateStockFinal parseISO p sales) \<and>
   0 \<le> historicalStock (calculateHistoricalStock endOfDay sales p (Some t)) \<and>
   (0 \<le> historicalStock (calculateHistoricalStock endOfDay sales p None)) =
     (0 \<le> Product.stock p) \<and>
   (\<forall>d. initialStockDate p = Some d \<and> d \<noteq> [] \<and>
        initialStock p \<le> quantityOf (\<lambda>s. matches s p \<and> onOrBefore (parseISO d) (date s)) sales
      \<longrightarrow> calculateStockFinal parseISO p sales = 0) \<and>
   ((if initialStock p \<noteq> 0 then initialStock p
     else Product.stock p + orZero (quantitySold p))
      \<le> quantityOf (\<lambda>s. matches s p \<and> onOrBefore (date s) (endOfDay t)) sales
    \<longrightarrow> historicalStock (calculateHistoricalStock endOfDay sales p (Some t)) = 0)"
proof (intro conjI allI impI)
  fix d
  assume "initialStockDate p = Some d \<and> d \<noteq> []"
  then show "0 \<le> calculateStockFinal parseISO p sales"
    by (simp add: calculateStockFinal_def stockAfter_def)
next
  show "0 \<le> historicalStock (calculateHistoricalStock endOfDay sales p (Some t))"
    by (simp add: calculateHistoricalStock_def Let_def)
next
  show "(0 \<le> historicalStock (calculateHistoricalStock endOfDay sales p None)) =
     (0 \<le> Product.stock p)"
    by (simp add: calculateHistoricalStock_def)
next
  fix d
  assume "initialStockDate p = Some d \<and> d \<noteq> [] \<and>
      initialStock p \<le> quantityOf (\<lambda>s. matches s p \<and> onOrBefore (parseISO d) (date s)) sales"
  then show "calculateStockFinal parseISO p sales = 0"
    by (simp add: calculateStockFinal_def stockAfter_eq)
next
  assume "(if initialStock p \<noteq> 0 then initialStock p
       else Product.stock p + orZero (quantitySold p))
        \<le> quantityOf (\<lambda>s. matches s p \<and> onOrBefore (date s) (endOfDay t)) sales"
  then show "historicalStock (calculateHistoricalStock endOfDay sales p (Some t)) = 0"
    by (simp add: calculateHistoricalStock_def Let_def foldl_quantity salesUpToDate_filter
        quantityOf_def)
qed

theorem stock_clamped_at_zero_witness:
  "0 \<le> calculateStockFinal exampleParseISO widgetSmall exampleLedger \<and>
   calculateStockFinal exampleParseISO widgetSmall exampleLedger = 0 \<and>
   historicalStock
     (calculateHistoricalStock (endOfDayAt 0) exampleLedger widgetSmall
        (Some (DateMs 1704067200000))) = 0 \<and>
   0 \<le> historicalStock (calculateHistoricalStock (endOfDayAt 0) exampleLedger widgetSmall None)"
proof -
  note inst = stock_clamped_at_zero
    [of widgetSmall exampleParseISO exampleLedger "endOfDayAt 0" "DateMs 1704067200000"]
  have c1: "initialStockDate widgetSmall = Some ''2024-01-01'' \<and> ''2024-01-01'' \<noteq> [] \<and>
      initialStock widgetSmall
        \<le> quantityOf (\<lambda>s. matches s widgetSmall \<and>
              onOrBefore (exampleParseISO ''2024-01-01'') (date s)) exampleLedger"
    by code_simp
  have c2: "(if initialStock widgetSmall \<noteq> 0 then initialStock widgetSmall
       else Product.stock widgetSmall + orZero (quantitySold widgetSmall))
        \<le> quantityOf (\<lambda>s. matches s widgetSmall \<and>
              onOrBefore (date s) (endOfDayAt 0 (DateMs 1704067200000))) exampleLedger"
    by code_simp
  have c3: "0 \<le> Product.stock widgetSmall"
    by code_simp
  from inst c1 have "0 \<le> calculateStockFinal exampleParseISO widgetSmall exampleLedger"
    by blast
  moreover from inst c1 have "calculateStockFinal exampleParseISO widgetSmall exampleLedger = 0"
    by blast
  moreover from inst c2 have "historicalStock
     (calculateHistoricalStock (endOfDayAt 0) exampleLedger widgetSmall
        (Some (DateMs 1704067200000))) = 0"
    by blast
  moreover from inst c3
  have "0 \<le> historicalStock (calculateHistoricalStock (endOfDayAt 0) exampleLedger widgetSmall None)"
    by blast
  ultimately show ?thesis
    by simp
qed

text \<open>
  C9. On an empty product list every count and total of the statistics is zero and the
  category breakdown is the empty list.
\<close>

theorem useStockStatistics_empty:
  "useStockStatistics products [] =
     \<lparr>totalProducts = 0, totalStock = 0, totalSold = 0, outOfStock = 0, lowStock = 0,
      totalRevenue = 0, categoryCounts = [],
      stockLevels = \<lparr>StockLevels.outOfStock = 0, StockLevels.lowStock = 0, healthy = 0\<rparr>\<rparr>"
  by (simp add: useStockStatistics_def sumStock_def sumSold_def sumRevenue_def)

theorem useStockStatistics_empty_witness:
  "totalProducts (useStockStatistics [widget] []) = 0 \<and>
   totalRevenue (useStockStatistics [widget] []) = 0 \<and>
   categoryCounts (useStockStatistics [widget] []) = []"
  using useStockStatistics_empty [of "[widget]"]
  by simp

text \<open>
  C10. Without a target date \<open>calculateHistoricalStock\<close> returns the stored fields: the
  stock, the quantity sold (0 when absent) and the flag \<open>False\<close>; the ledger and the
  time zone play no part in the result.
\<close>

theorem calculateHistoricalStock_no_target:
  "calculateHistoricalStock endOfDay sales p None =
     \<lparr>historicalStock = Product.stock p,
      quantitySoldUpToDate = (case quantitySold p of None \<Rightarrow> 0 | Some n \<Rightarrow> n),
      isHistoricalView = False\<rparr> \<and>
   calculateHistoricalStock endOfDay' sales' p None = calculateHistoricalStock endOfDay sales p None"
  by (simp add: calculateHistoricalStock_def orZero_def)

theorem calculateHistoricalStock_no_target_witness:
  "calculateHistoricalStock (endOfDayAt 0) exampleLedger widget None =
     \<lparr>historicalStock = 90, quantitySoldUpToDate = 10, isHistoricalView = False\<rparr> \<and>
   calculateHistoricalStock (endOfDayAt 0) [] widget None = calculateHistoricalStock (endOfDayAt 0) exampleLedger widget None"
proof -
  have v: "Product.stock widget = 90 \<and> quantitySold widget = Some 10"
    by code_simp
  from calculateHistoricalStock_no_target [of "endOfDayAt 0" exampleLedger widget "endOfDayAt 0" "[]"] v
  show ?thesis
    by simp
qed

end
